theory Spec2Isabelle
  imports Complex_Main "HOL-Library.Sublist"
begin

section \<open>rmlint: the command-line front end (src/cmdline.c)\<close>

text \<open>
  The theory embeds the functions of \<^verbatim>\<open>cmdline.c\<close>: the size and size-range parser, the
  lint-type selector, the collection of the root paths, the option handlers and the final
  checks of \<^verbatim>\<open>rm_cmd_parse_args\<close>, and the orchestrator \<^verbatim>\<open>rm_cmd_main\<close>.

  Conventions.
  \<^item> A C string is a \<open>string\<close> (the bytes before the terminating NUL); a pointer that may
    be \<^verbatim>\<open>NULL\<close> is an \<open>option\<close>.
  \<^item> \<^verbatim>\<open>RmOff\<close> is an unsigned 64-bit integer: an \<open>int\<close> from 0 to \<open>RMOFF_MAX\<close>.
    \<^verbatim>\<open>int\<close> and \<^verbatim>\<open>time_t\<close> values are \<open>int\<close> as well.
  \<^item> What is written to standard error is kept in the field \<open>log_lines\<close> of the session, a
    printf format with its arguments; what is still unread on standard input is
    the field \<open>stdin_buf\<close>.
  \<^item> The file system, the terminal, the clock and the functions of other modules are
    fields of an environment record.
  \<^item> \<^verbatim>\<open>exit\<close> ends the run: functions that may call it return an \<open>outcome\<close>.
\<close>

subsection \<open>Characters and strings (the "C" locale, GLib)\<close>

definition isalpha_c :: "char \<Rightarrow> bool" where
  "isalpha_c c = (let n = (of_char c :: nat) in (97 \<le> n \<and> n \<le> 122) \<or> (65 \<le> n \<and> n \<le> 90))"

definition isdigit_c :: "char \<Rightarrow> bool" where
  "isdigit_c c = (let n = (of_char c :: nat) in 48 \<le> n \<and> n \<le> 57)"

definition isxdigit_c :: "char \<Rightarrow> bool" where
  "isxdigit_c c = (let n = (of_char c :: nat) in
     (48 \<le> n \<and> n \<le> 57) \<or> (97 \<le> n \<and> n \<le> 102) \<or> (65 \<le> n \<and> n \<le> 70))"

text \<open>\<^verbatim>\<open>isspace\<close>: space, and the controls from horizontal tab to carriage return.\<close>

definition isspace_c :: "char \<Rightarrow> bool" where
  "isspace_c c = (let n = (of_char c :: nat) in n = 32 \<or> (9 \<le> n \<and> n \<le> 13))"

text \<open>\<^verbatim>\<open>g_ascii_isspace\<close> is \<^verbatim>\<open>isspace\<close> without the vertical tab.\<close>

definition g_ascii_isspace :: "char \<Rightarrow> bool" where
  "g_ascii_isspace c = (let n = (of_char c :: nat) in n = 32 \<or> n = 9 \<or> n = 10 \<or> n = 12 \<or> n = 13)"

definition tolower_c :: "char \<Rightarrow> char" where
  "tolower_c c = (let n = (of_char c :: nat) in if 65 \<le> n \<and> n \<le> 90 then char_of (n + 32) else c)"

definition g_strchug :: "string \<Rightarrow> string" where
  "g_strchug s = dropWhile g_ascii_isspace s"

definition g_strchomp :: "string \<Rightarrow> string" where
  "g_strchomp s = rev (dropWhile g_ascii_isspace (rev s))"

definition g_strstrip :: "string \<Rightarrow> string" where
  "g_strstrip s = g_strchomp (g_strchug s)"

text \<open>
  \<^verbatim>\<open>strcasecmp\<close>: the difference of the first two bytes that differ once lowered, the end
  of a string counting as the byte 0.
\<close>

fun strcasecmp :: "string \<Rightarrow> string \<Rightarrow> int" where
  "strcasecmp [] [] = 0"
| "strcasecmp [] (b # bs) = - int (of_char (tolower_c b))"
| "strcasecmp (a # as) [] = int (of_char (tolower_c a))"
| "strcasecmp (a # as) (b # bs) =
     (if tolower_c a = tolower_c b then strcasecmp as bs
      else int (of_char (tolower_c a)) - int (of_char (tolower_c b)))"

text \<open>
  \<^verbatim>\<open>g_strsplit (string, delimiter, max_tokens)\<close> for a delimiter of one character, as both
  callers pass it. The empty string gives the empty vector; otherwise the string is cut at
  the first \<open>max_tokens - 1\<close> delimiters, at every delimiter when \<open>max_tokens < 1\<close>.
\<close>

fun split_upto :: "nat \<Rightarrow> char \<Rightarrow> string \<Rightarrow> string list" where
  "split_upto n d [] = [[]]"
| "split_upto n d (c # cs) =
     (if c = d \<and> 1 < n then [] # split_upto (n - 1) d cs
      else (case split_upto n d cs of t # ts \<Rightarrow> (c # t) # ts | [] \<Rightarrow> [[c]]))"

fun split_all :: "char \<Rightarrow> string \<Rightarrow> string list" where
  "split_all d [] = [[]]"
| "split_all d (c # cs) =
     (if c = d then [] # split_all d cs
      else (case split_all d cs of t # ts \<Rightarrow> (c # t) # ts | [] \<Rightarrow> [[c]]))"

definition g_strsplit :: "string \<Rightarrow> char \<Rightarrow> int \<Rightarrow> string list" where
  "g_strsplit s d max_tokens =
     (if s = [] then []
      else if max_tokens < 1 then split_all d s
      else split_upto (nat max_tokens) d s)"

subsection \<open>Floating-point numbers\<close>

text \<open>
  The code computes sizes in \<^verbatim>\<open>long double\<close> and clamp factors in \<^verbatim>\<open>double\<close>. A value of
  either type is a rational number, an infinity or a NaN. The sign of a zero is not kept:
  no comparison of the code tells \<open>-0\<close> from \<open>0\<close>. The formats are those of the x86-64
  System V ABI: \<^verbatim>\<open>double\<close> is IEEE binary64 (53 bits of significand, values below
  \<open>2 ^ 1024\<close>, smallest positive value \<open>2 ^ -1074\<close>) and \<^verbatim>\<open>long double\<close> is the x87 extended
  format (64 bits, below \<open>2 ^ 16384\<close>, smallest positive value \<open>2 ^ -16445\<close>). Every
  operation rounds its exact result to the nearest value of the format, a tie to the
  value with an even significand.
\<close>

datatype fp = Finite rat | Pos_inf | Neg_inf | Not_a_number

function bit_length :: "int \<Rightarrow> int" where
  "bit_length a = (if a \<le> 0 then 0 else 1 + bit_length (a div 2))"
  by pat_completeness auto

termination
  by (relation "measure nat") auto

declare bit_length.simps [simp del]

text \<open>For \<open>a > 0\<close>, \<open>ilog2 a\<close> is the exponent \<open>e\<close> with \<open>2 ^ e \<le> a < 2 ^ (e + 1)\<close>.\<close>

definition ilog2 :: "rat \<Rightarrow> int" where
  "ilog2 a =
     (case quotient_of a of
        (n, d) \<Rightarrow>
          (let k = bit_length n - bit_length d
           in if 2 powi k \<le> a then k else k - 1))"

definition round_half_even :: "rat \<Rightarrow> int" where
  "round_half_even x =
     (let f = \<lfloor>x\<rfloor>; r = x - of_int f
      in if r < 1 / 2 then f else if 1 / 2 < r then f + 1 else if even f then f else f + 1)"

text \<open>
  \<open>fp_round p emax etiny q\<close>: the value nearest to \<open>q\<close> in the format with \<open>p\<close> bits of
  significand whose values are below \<open>2 ^ emax\<close> and whose smallest positive value is
  \<open>2 ^ etiny\<close>.
\<close>

definition fp_round :: "nat \<Rightarrow> int \<Rightarrow> int \<Rightarrow> rat \<Rightarrow> fp" where
  "fp_round p emax etiny q =
     (if q = 0 then Finite 0
      else
        (let a = \<bar>q\<bar>;
             e = max (ilog2 a) (etiny + int p - 1);
             ulp = 2 powi (e - int p + 1);
             r = of_int (round_half_even (a / ulp)) * ulp
         in if r = 0 then Finite 0
            else if emax \<le> ilog2 r then (if q < 0 then Neg_inf else Pos_inf)
            else Finite (if q < 0 then - r else r)))"

definition ld_round :: "rat \<Rightarrow> fp" where
  "ld_round = fp_round 64 16384 (- 16445)"

definition double_round :: "rat \<Rightarrow> fp" where
  "double_round = fp_round 53 1024 (- 1074)"

text \<open>The comparisons of C: every comparison with a NaN is false.\<close>

fun fp_less :: "fp \<Rightarrow> fp \<Rightarrow> bool" where
  "fp_less Not_a_number _ = False"
| "fp_less _ Not_a_number = False"
| "fp_less (Finite a) (Finite b) = (a < b)"
| "fp_less Neg_inf Neg_inf = False"
| "fp_less Neg_inf _ = True"
| "fp_less _ Pos_inf = True" 
| "fp_less _ _ = False"


text \<open>The conversion of a \<^verbatim>\<open>long double\<close> to \<^verbatim>\<open>double\<close>, and \<^verbatim>\<open>round\<close> on a \<^verbatim>\<open>double\<close> (to the
  nearest integer, a tie away from zero).\<close>

fun ld_to_double :: "fp \<Rightarrow> fp" where
  "ld_to_double (Finite a) = double_round a"
| "ld_to_double v = v"

fun c_round :: "fp \<Rightarrow> fp" where
  "c_round (Finite a) = Finite (of_int (if a < 0 then - \<lfloor>- a + 1 / 2\<rfloor> else \<lfloor>a + 1 / 2\<rfloor>))"
| "c_round v = v"

text \<open>The product of a \<^verbatim>\<open>long double\<close> and a positive integer that is a value of a
  \<^verbatim>\<open>double\<close>, in \<^verbatim>\<open>long double\<close>; and a \<^verbatim>\<open>double\<close> divided by 100.\<close>

fun ld_times :: "fp \<Rightarrow> int \<Rightarrow> fp" where
  "ld_times (Finite a) m = ld_round (a * of_int m)"
| "ld_times v m = v"


subsection \<open>\<^verbatim>\<open>strtold\<close> and \<^verbatim>\<open>g_strtod\<close>\<close>

text \<open>
  \<^verbatim>\<open>strtold\<close> skips white space, reads an optional sign and the longest prefix that is a
  floating-point literal, and returns the value of the literal, correctly rounded, and
  the end of what it read (\<open>Converted\<close>: the value and the number of bytes read). The
  literals are those of C99 in the "C" locale: a decimal mantissa with an optional
  fraction and an optional exponent, a hexadecimal mantissa after \<^verbatim>\<open>0x\<close> with an optional
  binary exponent, \<^verbatim>\<open>inf\<close> or \<^verbatim>\<open>infinity\<close>, and \<^verbatim>\<open>nan\<close> with an optional sequence of
  letters, digits and underscores in parentheses, all without regard to case. With no
  literal nothing is read and 0 is returned (\<open>No_conversion\<close>).
\<close>

datatype strtold_result = No_conversion | Converted fp nat

definition digit_val :: "char \<Rightarrow> int" where
  "digit_val c = int (of_char c) - 48"

definition decimal_value :: "string \<Rightarrow> int" where
  "decimal_value ds = foldl (\<lambda>a c. 10 * a + digit_val c) 0 ds"

definition hex_digit_val :: "char \<Rightarrow> int" where
  "hex_digit_val c = (if isdigit_c c then digit_val c else int (of_char (tolower_c c)) - 87)"

definition hex_value :: "string \<Rightarrow> int" where
  "hex_value ds = foldl (\<lambda>a c. 16 * a + hex_digit_val c) 0 ds"

text \<open>A mantissa: digits, optionally a point and more digits, with one digit at least.
  The result is the digits before the point, those after it, and the rest.\<close>

definition parse_mantissa :: "(char \<Rightarrow> bool) \<Rightarrow> string \<Rightarrow> (string \<times> string \<times> string) option" where
  "parse_mantissa is_digit t =
     (let int_part = takeWhile is_digit t;
          r1 = dropWhile is_digit t;
          point = (case r1 of c # _ \<Rightarrow> c = CHR ''.'' | [] \<Rightarrow> False);
          frac_part = (if point then takeWhile is_digit (tl r1) else []);
          r2 = (if point then dropWhile is_digit (tl r1) else r1)
      in if int_part = [] \<and> frac_part = [] then None else Some (int_part, frac_part, r2))"

text \<open>An exponent: the letter, an optional sign, and one decimal digit at least.\<close>

definition parse_exponent :: "char \<Rightarrow> string \<Rightarrow> (int \<times> string) option" where
  "parse_exponent letter r =
     (case r of
        [] \<Rightarrow> None
      | c # r1 \<Rightarrow>
          if tolower_c c \<noteq> letter then None
          else
            (let neg = (case r1 of s # _ \<Rightarrow> s = CHR ''-'' | [] \<Rightarrow> False);
                 r2 = (case r1 of s # r' \<Rightarrow> if s = CHR ''+'' \<or> s = CHR ''-'' then r' else r1 | [] \<Rightarrow> r1);
                 ds = takeWhile isdigit_c r2
             in if ds = [] then None
                else Some (if neg then - decimal_value ds else decimal_value ds, dropWhile isdigit_c r2)))"

datatype literal = Lit_number rat | Lit_inf | Lit_nan

definition decimal_literal :: "string \<Rightarrow> (literal \<times> string) option" where
  "decimal_literal t =
     (case parse_mantissa isdigit_c t of
        None \<Rightarrow> None
      | Some (int_part, frac_part, r) \<Rightarrow>
          (let m = of_int (decimal_value (int_part @ frac_part)) / 10 ^ length frac_part
           in case parse_exponent (CHR ''e'') r of
                None \<Rightarrow> Some (Lit_number m, r)
              | Some (ex, r') \<Rightarrow> Some (Lit_number (m * 10 powi ex), r')))"

definition hex_literal :: "string \<Rightarrow> (literal \<times> string) option" where
  "hex_literal t =
     (if map tolower_c (take 2 t) \<noteq> ''0x'' then None
      else
        (case parse_mantissa isxdigit_c (drop 2 t) of
           None \<Rightarrow> None
         | Some (int_part, frac_part, r) \<Rightarrow>
             (let m = of_int (hex_value (int_part @ frac_part)) / 16 ^ length frac_part
              in case parse_exponent (CHR ''p'') r of
                   None \<Rightarrow> Some (Lit_number m, r)
                 | Some (ex, r') \<Rightarrow> Some (Lit_number (m * 2 powi ex), r'))))"

definition is_n_char :: "char \<Rightarrow> bool" where
  "is_n_char c = (isalpha_c c \<or> isdigit_c c \<or> c = CHR ''_'')"

definition nan_tail :: "string \<Rightarrow> string" where
  "nan_tail r =
     (case r of
        [] \<Rightarrow> r
      | c # r' \<Rightarrow>
          if c \<noteq> CHR ''('' then r
          else
            (case dropWhile is_n_char r' of
               [] \<Rightarrow> r
             | d # r'' \<Rightarrow> if d = CHR '')'' then r'' else r))"

definition parse_literal :: "string \<Rightarrow> (literal \<times> string) option" where
  "parse_literal t =
     (if map tolower_c (take 8 t) = ''infinity'' then Some (Lit_inf, drop 8 t)
      else if map tolower_c (take 3 t) = ''inf'' then Some (Lit_inf, drop 3 t)
      else if map tolower_c (take 3 t) = ''nan'' then Some (Lit_nan, nan_tail (drop 3 t))
      else
        (case hex_literal t of
           Some l \<Rightarrow> Some l
         | None \<Rightarrow> decimal_literal t))"

definition str_to_fp :: "(rat \<Rightarrow> fp) \<Rightarrow> string \<Rightarrow> strtold_result" where
  "str_to_fp rnd nptr =
     (let s = dropWhile isspace_c nptr;
          neg = (case s of c # _ \<Rightarrow> c = CHR ''-'' | [] \<Rightarrow> False);
          t = (case s of c # cs \<Rightarrow> if c = CHR ''+'' \<or> c = CHR ''-'' then cs else s | [] \<Rightarrow> s)
      in case parse_literal t of
           None \<Rightarrow> No_conversion
         | Some (l, rest) \<Rightarrow>
             Converted
               (case l of
                  Lit_number q \<Rightarrow> rnd (if neg then - q else q)
                | Lit_inf \<Rightarrow> if neg then Neg_inf else Pos_inf
                | Lit_nan \<Rightarrow> Not_a_number)
               (length nptr - length rest))"

definition strtold :: "string \<Rightarrow> strtold_result" where
  "strtold = str_to_fp ld_round"


subsection \<open>Settings and session\<close>

text \<open>
  The digest types and the log levels that \<^verbatim>\<open>cmdline.c\<close> names. \<open>RM_DIGEST_OTHER\<close> stands
  for the other algorithms that \<^verbatim>\<open>rm_string_to_digest_type\<close> can return. A verbosity is the
  number of GLib's log-level flags.
\<close>

datatype RmDigestType =
    RM_DIGEST_UNKNOWN | RM_DIGEST_SPOOKY32 | RM_DIGEST_SPOOKY64 | RM_DIGEST_BASTARD
  | RM_DIGEST_SHA512 | RM_DIGEST_SHA256 | RM_DIGEST_PARANOID | RM_DIGEST_OTHER nat


record RmSettings =
  threads :: int
  depth :: int
  sort_criteria :: string
  color :: bool
  ignore_hidden :: bool
  followlinks :: bool
  see_symlinks :: bool
  samepart :: bool
  keep_all_tagged :: bool
  keep_all_untagged :: bool
  must_match_tagged :: bool
  must_match_untagged :: bool
  find_hardlinked_dupes :: bool
  match_basename :: bool
  match_with_extension :: bool
  match_without_extension :: bool
  merge_directories :: bool
  write_cksum_to_xattr :: bool
  read_cksum_from_xattr :: bool
  write_unfinished :: bool
  findbadids :: bool
  findbadlinks :: bool
  findemptydirs :: bool
  listemptyfiles :: bool
  nonstripped :: bool
  searchdup :: bool
  minsize :: int
  maxsize :: int
  limits_specified :: bool
  paranoid_mem :: int
  filter_mtime :: bool
  min_mtime :: int
  use_absolute_start_offset :: bool
  skip_start_factor :: fp
  skip_start_offset :: int
  use_absolute_end_offset :: bool
  skip_end_factor :: fp
  skip_end_offset :: int
  checksum_type :: RmDigestType
  verbosity :: nat
  iwd :: string
  joined_argv :: string
  paths :: "string list"
  is_prefd :: "bool list"

datatype log_level = Log_debug | Log_warning | Log_error | Log_stderr

datatype log_arg = Str string | Num int | Flt fp

text \<open>
  \<open>formats\<close> is the formatter table, the pairs of a formatter's name and its output path
  in the order they were added, and \<open>fmt_config\<close> the formatter settings (formatter, key,
  value). \<^verbatim>\<open>hash_seed1\<close> and \<^verbatim>\<open>hash_seed2\<close>, which are set from the clock and from
  addresses, and the opaque handles \<^verbatim>\<open>mounts\<close>, \<^verbatim>\<open>dir_merger\<close> and \<^verbatim>\<open>timer\<close> are left out.
\<close>

record RmSession =
  settings :: RmSettings
  formats :: "(string \<times> string) list"
  fmt_config :: "(string \<times> string \<times> string) list"
  output_cnt0 :: int
  output_cnt1 :: int
  verbosity_count :: int
  paranoia_count :: int
  cache_list :: "string list"
  total_files :: nat
  log_lines :: "(log_level \<times> string \<times> log_arg list) list"
  stdin_buf :: string


text \<open>
  The result of a function that may end the run. \<open>Returns x\<close>: the call returns \<open>x\<close>.
  \<open>Exits status session\<close>: \<^verbatim>\<open>exit (status)\<close> was called, the session being as given.
  \<open>Undefined\<close>: the C code has undefined behaviour on this input (a value that the result
  type cannot hold, a read past an array, a null pointer dereferenced).
\<close>

datatype 'a outcome = Returns 'a | Exits int RmSession | Undefined



definition bind_outcome :: "'a outcome \<Rightarrow> ('a \<Rightarrow> 'b outcome) \<Rightarrow> 'b outcome" where
  "bind_outcome r f =
     (case r of Returns x \<Rightarrow> f x | Exits status s \<Rightarrow> Exits status s | Undefined \<Rightarrow> Undefined)"

subsection \<open>Sizes: \<^verbatim>\<open>SIZE_FORMAT_TABLE\<close> and \<^verbatim>\<open>rm_cmd_size_string_to_bytes\<close>\<close>

record FormatSpec =
  fmt_id :: string
  base :: int
  exponent :: nat

definition SIZE_FORMAT_TABLE :: "FormatSpec list" where
  "SIZE_FORMAT_TABLE =
    [\<lparr>fmt_id = ''b'',  base = 512,  exponent = 1\<rparr>,
     \<lparr>fmt_id = ''c'',  base = 1,    exponent = 1\<rparr>,
     \<lparr>fmt_id = ''e'',  base = 1000, exponent = 6\<rparr>,
     \<lparr>fmt_id = ''eb'', base = 1024, exponent = 6\<rparr>,
     \<lparr>fmt_id = ''g'',  base = 1000, exponent = 3\<rparr>,
     \<lparr>fmt_id = ''gb'', base = 1024, exponent = 3\<rparr>,
     \<lparr>fmt_id = ''k'',  base = 1000, exponent = 1\<rparr>,
     \<lparr>fmt_id = ''kb'', base = 1024, exponent = 1\<rparr>,
     \<lparr>fmt_id = ''m'',  base = 1000, exponent = 2\<rparr>,
     \<lparr>fmt_id = ''mb'', base = 1024, exponent = 2\<rparr>,
     \<lparr>fmt_id = ''p'',  base = 1000, exponent = 5\<rparr>,
     \<lparr>fmt_id = ''pb'', base = 1024, exponent = 5\<rparr>,
     \<lparr>fmt_id = ''t'',  base = 1000, exponent = 4\<rparr>,
     \<lparr>fmt_id = ''tb'', base = 1024, exponent = 4\<rparr>,
     \<lparr>fmt_id = ''w'',  base = 2,    exponent = 1\<rparr>]"

definition SIZE_FORMAT_TABLE_N :: nat where
  "SIZE_FORMAT_TABLE_N = length SIZE_FORMAT_TABLE"

text \<open>
  \<^verbatim>\<open>rm_cmd_size_format_error\<close> stores the message and returns 0. The pair is the value
  returned and \<^verbatim>\<open>*error\<close> after the call; every caller passes a pointer to \<^verbatim>\<open>NULL\<close>, so
  \<open>None\<close> is an error left unset.
\<close>

definition rm_cmd_size_format_error :: "string \<Rightarrow> int \<times> string option" where
  "rm_cmd_size_format_error msg = (0, Some msg)"

definition rm_cmd_compare_spec_elem :: "FormatSpec \<Rightarrow> FormatSpec \<Rightarrow> int" where
  "rm_cmd_compare_spec_elem fmt_a fmt_b = strcasecmp (fmt_id fmt_a) (fmt_id fmt_b)"

text \<open>\<^verbatim>\<open>bsearch\<close>: the binary search of the C library over the elements \<open>l..<u\<close>.\<close>

function bsearch_loop :: "FormatSpec \<Rightarrow> FormatSpec list \<Rightarrow> nat \<Rightarrow> nat \<Rightarrow> FormatSpec option" where
  "bsearch_loop key tbl l u =
     (if l < u then
        (if rm_cmd_compare_spec_elem key (tbl ! ((l + u) div 2)) < 0
           then bsearch_loop key tbl l ((l + u) div 2)
         else if rm_cmd_compare_spec_elem key (tbl ! ((l + u) div 2)) > 0
           then bsearch_loop key tbl ((l + u) div 2 + 1) u
         else Some (tbl ! ((l + u) div 2)))
      else None)"
  by pat_completeness auto
termination
  by (relation "measure (\<lambda>(key, tbl, l, u). u - l)") auto

declare bsearch_loop.simps [simp del]

definition bsearch :: "FormatSpec \<Rightarrow> FormatSpec list \<Rightarrow> nat \<Rightarrow> FormatSpec option" where
  "bsearch key tbl n = bsearch_loop key tbl 0 n"

definition RMOFF_MAX :: int where
  "RMOFF_MAX = 2 ^ 64 - 1"

text \<open>
  The conversion of a floating-point value to \<^verbatim>\<open>RmOff\<close>, an unsigned integer of 64 bits:
  the fraction is discarded, and the behaviour is undefined when the integral part is not
  a value of \<^verbatim>\<open>RmOff\<close> (the source: "No overflow check"), also for an infinity and a NaN.
\<close>

definition to_RmOff :: "fp \<Rightarrow> (int \<times> string option) outcome" where
  "to_RmOff v =
     (case v of
        Finite a \<Rightarrow>
          (let t = (if a < 0 then - \<lfloor>- a\<rfloor> else \<lfloor>a\<rfloor>)
           in if 0 \<le> t \<and> t \<le> RMOFF_MAX then Returns (t, None) else Undefined)
      | _ \<Rightarrow> Undefined)"

text \<open>
  \<^verbatim>\<open>decimal == 0 && format == size_spec\<close> holds exactly when nothing was converted.
  \<^verbatim>\<open>format\<close> is the unread rest of the string, \<open>drop n spec\<close>. \<^verbatim>\<open>pow\<close> returns the powers of the
  table, which are all values of a \<^verbatim>\<open>double\<close>; the product is a \<^verbatim>\<open>long double\<close>. \<^verbatim>\<open>round\<close>
  takes a \<^verbatim>\<open>double\<close>, so its argument is converted first.
\<close>

definition rm_cmd_size_string_to_bytes :: "string option \<Rightarrow> (int \<times> string option) outcome" where
  "rm_cmd_size_string_to_bytes size_spec =
     (case size_spec of
        None \<Rightarrow> Returns (rm_cmd_size_format_error ''Input size is empty'')
      | Some spec \<Rightarrow>
          (case strtold spec of
             No_conversion \<Rightarrow> Returns (rm_cmd_size_format_error ''This does not look like a number'')
           | Converted decimal n \<Rightarrow>
               if fp_less decimal (Finite 0) then
                 Returns (rm_cmd_size_format_error ''Negativ sizes are no good idea'')
               else if drop n spec \<noteq> [] then
                 (case bsearch \<lparr>fmt_id = g_strstrip (drop n spec), base = 0, exponent = 0\<rparr>
                         SIZE_FORMAT_TABLE SIZE_FORMAT_TABLE_N of
                    Some found \<Rightarrow> to_RmOff (ld_times decimal (base found ^ exponent found))
                  | None \<Rightarrow> Returns (rm_cmd_size_format_error ''Given format specifier not found''))
               else to_RmOff (c_round (ld_to_double decimal))))"

text \<open>
  \<^verbatim>\<open>g_strstrip\<close> works in place: when the call gets as far as the suffix, the white space
  around it is gone from the caller's string afterwards. This is the string that the
  callers print in their error messages.
\<close>

definition size_spec_after_call :: "string \<Rightarrow> string" where
  "size_spec_after_call spec =
     (case strtold spec of
        No_conversion \<Rightarrow> spec
      | Converted decimal n \<Rightarrow>
          if fp_less decimal (Finite 0) then spec
          else if drop n spec \<noteq> [] then take n spec @ g_strstrip (drop n spec)
          else spec)"

text \<open>
  The table of suffixes as the specification states it, to compare with the code: a suffix
  and the number it multiplies by.
\<close>

definition claimed_table :: "(string \<times> int) list" where
  "claimed_table =
     [(''b'', 512 ^ 1), (''c'', 1), (''k'', 1000 ^ 1), (''kb'', 1024 ^ 1),
      (''m'', 1000 ^ 2), (''mb'', 1024 ^ 2), (''g'', 1000 ^ 3), (''gb'', 1024 ^ 3),
      (''t'', 1000 ^ 4), (''tb'', 1024 ^ 4), (''p'', 1000 ^ 5), (''pb'', 1024 ^ 5),
      (''e'', 1000 ^ 6), (''eb'', 1024 ^ 6), (''w'', 2 ^ 1)]"

definition claimed_multiplier :: "string \<Rightarrow> int option" where
  "claimed_multiplier = map_of claimed_table"

subsection \<open>Size ranges\<close>

text \<open>\<^verbatim>\<open>G_MAXULONG\<close> where \<^verbatim>\<open>unsigned long\<close> has 64 bits.\<close>

definition G_MAXULONG :: int where
  "G_MAXULONG = 2 ^ 64 - 1"

text \<open>
  The result is the value returned, \<^verbatim>\<open>*min\<close>, \<^verbatim>\<open>*max\<close> and \<^verbatim>\<open>*error\<close>. For the empty string
  \<^verbatim>\<open>g_strsplit\<close> returns a vector that holds only its terminator, and \<^verbatim>\<open>split[1]\<close> is read
  past it.
\<close>

definition rm_cmd_size_range_string_to_bytes ::
    "string \<Rightarrow> (bool \<times> int \<times> int \<times> string option) outcome" where
  "rm_cmd_size_range_string_to_bytes range_spec =
     (let finish = (\<lambda>mn mx tmp_error.
            let tmp_error' = (if mx < mn then Some ''Max is smaller than min'' else tmp_error)
            in Returns (tmp_error' = None, mn, mx, tmp_error'))
      in case g_strsplit range_spec (CHR ''-'') 2 of
           [] \<Rightarrow> Undefined
         | s0 # rest \<Rightarrow>
             bind_outcome (rm_cmd_size_string_to_bytes (Some s0)) (\<lambda>(mn, tmp_error).
               case rest of
                 s1 # _ \<Rightarrow>
                   if tmp_error = None
                   then bind_outcome (rm_cmd_size_string_to_bytes (Some s1)) (\<lambda>(mx, tmp_error').
                          finish mn mx tmp_error')
                   else finish mn G_MAXULONG tmp_error
               | [] \<Rightarrow> finish mn G_MAXULONG tmp_error))"

subsection \<open>Lint types: \<^verbatim>\<open>rm_cmd_parse_lint_types\<close>\<close>
















subsection \<open>The environment\<close>


subsection \<open>Formatters\<close>





subsection \<open>Root paths\<close>














subsection \<open>Option callbacks\<close>




































subsection \<open>The option table and \<^verbatim>\<open>rm_cmd_parse_args\<close>\<close>










subsection \<open>The orchestrator: \<^verbatim>\<open>rm_cmd_main\<close>\<close>






subsection \<open>An example session and environment\<close>




section \<open>Verified properties\<close>

subsection \<open>Floating-point numbers: integers of 64 bits are exact\<close>

lemma bit_length_bounds:
  "0 < a \<Longrightarrow> 1 \<le> bit_length a \<and> 2 ^ nat (bit_length a - 1) \<le> a"
proof (induction a rule: bit_length.induct)
  case (1 a)
  show ?case
  proof (cases "a = 1")
    case True
    have "bit_length 1 = 1"
      by (subst bit_length.simps, subst bit_length.simps) simp
    with True show ?thesis by simp
  next
    case False
    with "1.prems" have h: "0 < a div 2" by simp
    then have ih: "1 \<le> bit_length (a div 2)" "2 ^ nat (bit_length (a div 2) - 1) \<le> a div 2"
      using "1.IH" "1.prems" by simp_all
    have b: "bit_length a = 1 + bit_length (a div 2)"
      using "1.prems" by (subst bit_length.simps) simp
    have "nat (bit_length a - 1) = Suc (nat (bit_length (a div 2) - 1))"
      using ih(1) b by simp
    then have "(2::int) ^ nat (bit_length a - 1) = 2 * 2 ^ nat (bit_length (a div 2) - 1)"
      by simp
    also have "\<dots> \<le> 2 * (a div 2)" using ih(2) by simp
    also have "\<dots> \<le> a" by simp
    finally show ?thesis using b ih(1) by simp
  qed
qed

lemma ilog2_of_int:
  assumes "0 < n"
  shows "ilog2 (of_int n) = bit_length n - 1"
proof -
  have q: "quotient_of (of_int n) = (n, 1)" by simp
  have b1: "bit_length 1 = 1"
    by (subst bit_length.simps, subst bit_length.simps) simp
  from bit_length_bounds[OF assms]
  have bn: "1 \<le> bit_length n" "2 ^ nat (bit_length n - 1) \<le> n" by simp_all
  have "(2::rat) powi (bit_length n - 1) = 2 ^ nat (bit_length n - 1)"
    using bn(1) by (simp add: power_int_def)
  also have "\<dots> = of_int (2 ^ nat (bit_length n - 1))" by simp
  also have "\<dots> \<le> of_int n" using bn(2) by (simp only: of_int_le_iff)
  finally have "(2::rat) powi (bit_length n - 1) \<le> of_int n" .
  then show ?thesis
    by (simp add: ilog2_def q b1 Let_def)
qed

lemma bit_length_less:
  assumes "0 < n" "n < 2 ^ k"
  shows "bit_length n \<le> int k"
proof (rule ccontr)
  assume "\<not> bit_length n \<le> int k"
  then have "k \<le> nat (bit_length n - 1)" by simp
  then have "(2::int) ^ k \<le> 2 ^ nat (bit_length n - 1)"
    by (simp add: power_increasing)
  also have "\<dots> \<le> n" using bit_length_bounds[OF assms(1)] by simp
  finally show False using assms(2) by simp
qed

lemma round_half_even_of_int: "round_half_even (of_int m) = m"
  by (simp add: round_half_even_def)

lemma ld_round_of_int:
  assumes "0 \<le> n" "n < 2 ^ 64"
  shows "ld_round (of_int n) = Finite (of_int n)"
proof (cases "n = 0")
  case True
  then show ?thesis by (simp add: ld_round_def fp_round_def)
next
  case False
  with assms have pos: "0 < n" by simp
  let ?L = "bit_length n - 1"
  have L: "ilog2 (of_int n) = ?L" by (rule ilog2_of_int[OF pos])
  have le: "?L \<le> 63" using bit_length_less[OF pos assms(2)] by simp
  define e where "e = max ?L (- 16445 + int 64 - 1)"
  have e: "e \<le> 63" using le by (simp add: e_def)
  define k where "k = nat (63 - e)"
  have ulp: "(2::rat) powi (e - int 64 + 1) = 1 / 2 ^ k"
    using e by (simp add: power_int_def k_def field_simps)
  have quot: "(of_int n :: rat) / (1 / 2 ^ k) = of_int (n * 2 ^ k)" by simp
  have r: "of_int (round_half_even ((of_int n :: rat) / (1 / 2 ^ k))) * (1 / 2 ^ k) = (of_int n :: rat)"
    by (simp only: quot round_half_even_of_int) simp
  have a: "\<bar>of_int n :: rat\<bar> = of_int n" using pos by simp
  have nz: "(of_int n :: rat) \<noteq> 0" using pos by simp
  have nneg: "\<not> (of_int n :: rat) < 0" using pos by simp
  have ov: "\<not> 16384 \<le> ilog2 (of_int n)" using le by (simp add: L)
  show ?thesis
    unfolding ld_round_def fp_round_def Let_def a L
    unfolding e_def[symmetric] ulp r
    using nz nneg ov by (simp add: L)
qed

subsection \<open>Sizes\<close>

lemma isalpha_tolower [simp]: "isalpha_c (tolower_c c) = isalpha_c c"
  by (auto simp: isalpha_c_def tolower_c_def Let_def)

lemma tolower_idem [simp]: "tolower_c (tolower_c c) = tolower_c c"
  by (auto simp: tolower_c_def Let_def)

lemma alpha_not_digit: "isalpha_c c \<Longrightarrow> \<not> isdigit_c c"
  by (auto simp: isalpha_c_def isdigit_c_def Let_def)

lemma alpha_not_space: "isalpha_c c \<Longrightarrow> \<not> g_ascii_isspace c"
  by (auto simp: isalpha_c_def g_ascii_isspace_def Let_def)

lemma digit_not_space: "isdigit_c c \<Longrightarrow> \<not> isspace_c c"
  by (auto simp: isdigit_c_def isspace_c_def Let_def)

lemma alpha_not_punct: "isalpha_c c \<Longrightarrow> c \<noteq> CHR ''.'' \<and> c \<noteq> CHR ''+'' \<and> c \<noteq> CHR ''-''"
  by (auto simp: isalpha_c_def Let_def)

lemma digit_not_sign: "isdigit_c c \<Longrightarrow> c \<noteq> CHR ''+'' \<and> c \<noteq> CHR ''-'' \<and> c \<noteq> CHR ''x'' \<and> c \<noteq> CHR ''X''"
  by (auto simp: isdigit_c_def Let_def)

lemma digit_tolower: "isdigit_c c \<Longrightarrow> tolower_c c = c"
  by (auto simp: isdigit_c_def tolower_c_def Let_def)

lemma digit_not_letter:
  "isdigit_c c \<Longrightarrow> c \<noteq> CHR ''i'' \<and> c \<noteq> CHR ''n'' \<and> c \<noteq> CHR ''x''"
  by (auto simp: isdigit_c_def Let_def)

lemma strcasecmp_tolower: "strcasecmp (map tolower_c a) b = strcasecmp a b"
  by (induction a b rule: strcasecmp.induct) simp_all

lemma bsearch_loop_tolower:
  "bsearch_loop \<lparr>fmt_id = map tolower_c k, base = x, exponent = y\<rparr> tbl l u =
   bsearch_loop \<lparr>fmt_id = k, base = x, exponent = y\<rparr> tbl l u"
proof (induction "\<lparr>fmt_id = k, base = x, exponent = y\<rparr>" tbl l u rule: bsearch_loop.induct)
  case (1 tbl l u)
  show ?case
    using 1 by (subst (1 2) bsearch_loop.simps)
      (simp add: rm_cmd_compare_spec_elem_def strcasecmp_tolower)
qed

lemma bsearch_table:
  "list_all (\<lambda>e. bsearch \<lparr>fmt_id = fmt_id e, base = 0, exponent = 0\<rparr>
                     SIZE_FORMAT_TABLE SIZE_FORMAT_TABLE_N = Some e) SIZE_FORMAT_TABLE"
  by code_simp

lemma takeWhile_prefix:
  "list_all P xs \<Longrightarrow> ys = [] \<or> \<not> P (hd ys) \<Longrightarrow> takeWhile P (xs @ ys) = xs"
  by (induction xs) (auto simp: takeWhile_eq_Nil_iff)

lemma dropWhile_prefix:
  "list_all P xs \<Longrightarrow> ys = [] \<or> \<not> P (hd ys) \<Longrightarrow> dropWhile P (xs @ ys) = ys"
  by (induction xs) (auto simp: dropWhile_eq_self_iff)

lemma parse_exponent_alpha: "list_all isalpha_c sfx \<Longrightarrow> parse_exponent letter sfx = None"
proof (cases sfx)
  case Nil
  then show ?thesis by (simp add: parse_exponent_def)
next
  case (Cons c r1)
  assume a: "list_all isalpha_c sfx"
  show ?thesis
  proof (cases r1)
    case Nil
    with Cons show ?thesis by (simp add: parse_exponent_def)
  next
    case (Cons s r')
    with a \<open>sfx = c # r1\<close> have s: "isalpha_c s" by simp
    from alpha_not_punct[OF s] alpha_not_digit[OF s] Cons \<open>sfx = c # r1\<close>
    show ?thesis by (simp add: parse_exponent_def)
  qed
qed

lemma parse_mantissa_digits:
  assumes "ds \<noteq> []" "list_all isdigit_c ds" "list_all isalpha_c sfx"
  shows "parse_mantissa isdigit_c (ds @ sfx) = Some (ds, [], sfx)"
proof -
  have hd: "sfx = [] \<or> \<not> isdigit_c (hd sfx)"
    using assms(3) by (cases sfx) (auto simp: alpha_not_digit)
  have tw: "takeWhile isdigit_c (ds @ sfx) = ds"
    by (rule takeWhile_prefix[OF assms(2) hd])
  have dw: "dropWhile isdigit_c (ds @ sfx) = sfx"
    by (rule dropWhile_prefix[OF assms(2) hd])
  have pt: "(case sfx of [] \<Rightarrow> False | c # _ \<Rightarrow> c = CHR ''.'') = False"
    using assms(3) by (cases sfx) (auto dest: alpha_not_punct)
  show ?thesis
    unfolding parse_mantissa_def Let_def tw dw pt using assms(1) by simp
qed

lemma decimal_literal_digits:
  assumes "ds \<noteq> []" "list_all isdigit_c ds" "list_all isalpha_c sfx"
  shows "decimal_literal (ds @ sfx) = Some (Lit_number (of_int (decimal_value ds)), sfx)"
  by (simp add: decimal_literal_def parse_mantissa_digits[OF assms] parse_exponent_alpha[OF assms(3)])

lemma hex_literal_digits:
  assumes "ds \<noteq> []" "list_all isdigit_c ds" "sfx = [] \<or> tolower_c (hd sfx) \<noteq> CHR ''x''"
  shows "hex_literal (ds @ sfx) = None"
proof -
  obtain d ds' where ds: "ds = d # ds'" using assms(1) by (cases ds) auto
  have "map tolower_c (take 2 (ds @ sfx)) \<noteq> ''0x''"
  proof (cases ds')
    case Nil
    with ds assms(3) show ?thesis by (cases sfx) auto
  next
    case (Cons d2 r)
    with ds assms(2) have "isdigit_c d2" by simp
    from digit_tolower[OF this] digit_not_letter[OF this] ds Cons show ?thesis by simp
  qed
  then show ?thesis by (simp add: hex_literal_def)
qed

lemma parse_literal_digits:
  assumes "ds \<noteq> []" "list_all isdigit_c ds" "list_all isalpha_c sfx"
    "sfx = [] \<or> tolower_c (hd sfx) \<noteq> CHR ''x''"
  shows "parse_literal (ds @ sfx) = Some (Lit_number (of_int (decimal_value ds)), sfx)"
proof -
  obtain d ds' where ds: "ds = d # ds'" using assms(1) by (cases ds) auto
  have d: "isdigit_c d" using assms(2) ds by simp
  have l: "tolower_c d \<noteq> CHR ''i''" "tolower_c d \<noteq> CHR ''n''"
    using digit_tolower[OF d] digit_not_letter[OF d] by simp_all
  have 1: "map tolower_c (take 8 (ds @ sfx)) \<noteq> ''infinity''"
    using l ds by auto
  have 2: "map tolower_c (take 3 (ds @ sfx)) \<noteq> ''inf''"
    using l ds by auto
  have 3: "map tolower_c (take 3 (ds @ sfx)) \<noteq> ''nan''"
    using l ds by auto
  show ?thesis
    unfolding parse_literal_def
    using 1 2 3 hex_literal_digits[OF assms(1,2,4)] decimal_literal_digits[OF assms(1,2,3)]
    by simp
qed

lemma strtold_digits:
  assumes "ds \<noteq> []" "list_all isdigit_c ds" "list_all isalpha_c sfx"
    "sfx = [] \<or> tolower_c (hd sfx) \<noteq> CHR ''x''" "decimal_value ds < 2 ^ 64" "0 \<le> decimal_value ds"
  shows "strtold (ds @ sfx) = Converted (Finite (of_int (decimal_value ds))) (length ds)"
proof -
  obtain d ds' where ds: "ds = d # ds'" using assms(1) by (cases ds) auto
  have d: "isdigit_c d" using assms(2) ds by simp
  have sp: "dropWhile isspace_c (ds @ sfx) = ds @ sfx"
    using d ds by (simp add: digit_not_space)
  have sg: "d \<noteq> CHR ''+''" "d \<noteq> CHR ''-''" using digit_not_sign[OF d] by auto
  have t: "(case ds @ sfx of [] \<Rightarrow> ds @ sfx | c # cs \<Rightarrow> if c = CHR ''+'' \<or> c = CHR ''-'' then cs else ds @ sfx) = ds @ sfx"
    using ds sg by simp
  have neg: "(case ds @ sfx of [] \<Rightarrow> False | c # x \<Rightarrow> c = CHR ''-'') = False"
    using ds sg by simp
  show ?thesis
    unfolding strtold_def str_to_fp_def Let_def sp t neg
    by (simp add: parse_literal_digits[OF assms(1-4)] ld_round_of_int[OF assms(6,5)])
qed

lemma set_g_strstrip: "set (g_strstrip s) \<subseteq> set s"
proof -
  have "set (g_strchomp t) \<subseteq> set t" for t
    using set_dropWhileD[of _ g_ascii_isspace "rev t"] by (auto simp: g_strchomp_def)
  moreover have "set (g_strchug s) \<subseteq> set s"
    using set_dropWhileD[of _ g_ascii_isspace s] by (auto simp: g_strchug_def)
  ultimately show ?thesis unfolding g_strstrip_def by blast
qed

lemma g_strstrip_alpha: "list_all isalpha_c s \<Longrightarrow> g_strstrip s = s"
proof (cases s)
  case Nil
  then show ?thesis by (simp add: g_strstrip_def g_strchug_def g_strchomp_def)
next
  case (Cons c cs)
  assume a: "list_all isalpha_c s"
  have 1: "dropWhile g_ascii_isspace s = s"
    using a Cons by (simp add: alpha_not_space)
  have "isalpha_c (last s)" using a Cons by (metis last_in_set list.discI list_all_iff)
  moreover have "hd (rev s) = last s" by (metis hd_rev)
  ultimately have "\<not> g_ascii_isspace (hd (rev s))"
    by (simp add: alpha_not_space)
  then have 2: "dropWhile g_ascii_isspace (rev s) = rev s"
    by (simp add: dropWhile_eq_self_iff)
  show ?thesis by (simp add: g_strstrip_def g_strchug_def g_strchomp_def 1 2)
qed

lemma claimed_table_in_code:
  "list_all (\<lambda>(k, m). list_ex (\<lambda>e. fmt_id e = k \<and> base e ^ exponent e = m) SIZE_FORMAT_TABLE)
     claimed_table"
  by code_simp

lemma claimed_multiplier_found:
  assumes "claimed_multiplier k = Some m"
  shows "\<exists>e \<in> set SIZE_FORMAT_TABLE. fmt_id e = k \<and> base e ^ exponent e = m"
proof -
  from assms have "(k, m) \<in> set claimed_table"
    by (simp add: claimed_multiplier_def map_of_SomeD)
  with claimed_table_in_code show ?thesis
    by (auto simp: list_all_iff list_ex_iff)
qed

lemma code_table_in_claimed:
  "list_all (\<lambda>e. claimed_multiplier (fmt_id e) \<noteq> None) SIZE_FORMAT_TABLE"
  by code_simp

lemma claimed_multiplier_table:
  "e \<in> set SIZE_FORMAT_TABLE \<Longrightarrow> claimed_multiplier (fmt_id e) \<noteq> None"
  using code_table_in_claimed by (simp add: list_all_iff)

lemma table_ids:
  "list_all (\<lambda>e. list_all isalpha_c (fmt_id e) \<and> map tolower_c (fmt_id e) = fmt_id e
       \<and> fmt_id e \<noteq> [] \<and> tolower_c (hd (fmt_id e)) \<noteq> CHR ''x''
       \<and> CHR 0x00 \<notin> set (fmt_id e)) SIZE_FORMAT_TABLE"
  by code_simp

lemma bsearch_loop_sound:
  "bsearch_loop key tbl l u = Some e \<Longrightarrow> u \<le> length tbl \<Longrightarrow>
     e \<in> set tbl \<and> rm_cmd_compare_spec_elem key e = 0"
proof (induction key tbl l u rule: bsearch_loop.induct)
  case (1 key tbl l u)
  show ?case
  proof (cases "l < u")
    case False
    with "1.prems"(1) show ?thesis by (subst (asm) bsearch_loop.simps) simp
  next
    case True
    let ?i = "(l + u) div 2"
    have i: "?i < u" "?i < length tbl" using True "1.prems"(2) by auto
    consider (lt) "rm_cmd_compare_spec_elem key (tbl ! ?i) < 0"
      | (gt) "\<not> rm_cmd_compare_spec_elem key (tbl ! ?i) < 0" "rm_cmd_compare_spec_elem key (tbl ! ?i) > 0"
      | (eq) "rm_cmd_compare_spec_elem key (tbl ! ?i) = 0" by linarith
    then show ?thesis
    proof cases
      case lt
      with True "1.prems"(1) have "bsearch_loop key tbl l ?i = Some e"
        by (subst (asm) bsearch_loop.simps) simp
      with "1.IH"(1)[OF True lt] i "1.prems"(2) show ?thesis by simp
    next
      case gt
      with True "1.prems"(1) have "bsearch_loop key tbl (?i + 1) u = Some e"
        by (subst (asm) bsearch_loop.simps) simp
      with "1.IH"(2)[OF True gt] "1.prems"(2) show ?thesis by simp
    next
      case eq
      with True "1.prems"(1) have "e = tbl ! ?i"
        by (subst (asm) bsearch_loop.simps) simp
      with eq i show ?thesis by simp
    qed
  qed
qed

lemma tolower_code_zero: "(of_char (tolower_c c) :: nat) = 0 \<Longrightarrow> c = CHR 0x00"
proof -
  assume a: "(of_char (tolower_c c) :: nat) = 0"
  have "tolower_c c = c"
  proof (rule ccontr)
    assume "tolower_c c \<noteq> c"
    then have "65 \<le> (of_char c :: nat) \<and> (of_char c :: nat) \<le> 90"
      and "tolower_c c = char_of ((of_char c :: nat) + 32)"
      by (auto simp: tolower_c_def Let_def split: if_splits)
    then have "(of_char (tolower_c c) :: nat) = of_char c + 32" by simp
    with a show False by simp
  qed
  with a have "(of_char c :: nat) = of_char (CHR 0x00)" by simp
  then show ?thesis by (simp only: of_char_eq_iff)
qed

lemma strcasecmp_zero:
  "strcasecmp a b = 0 \<Longrightarrow> CHR 0x00 \<notin> set a \<Longrightarrow> CHR 0x00 \<notin> set b \<Longrightarrow>
     map tolower_c a = map tolower_c b"
proof (induction a b rule: strcasecmp.induct)
  case (2 b bs)
  then have "(of_char (tolower_c b) :: nat) = 0" by simp
  from tolower_code_zero[OF this] 2 show ?case by simp
next
  case (3 a as)
  then have "(of_char (tolower_c a) :: nat) = 0" by simp
  from tolower_code_zero[OF this] 3 show ?case by simp
next
  case (4 a as b bs)
  show ?case
  proof (cases "tolower_c a = tolower_c b")
    case True
    with 4 show ?thesis by simp
  next
    case False
    with "4.prems"(1) have "int (of_char (tolower_c a)) = int (of_char (tolower_c b))" by simp
    then have "(of_char (tolower_c a) :: nat) = of_char (tolower_c b)" by simp
    then have "tolower_c a = tolower_c b" by (simp only: of_char_eq_iff)
    with False show ?thesis by simp
  qed
qed simp

lemma digit_val_nonneg: "isdigit_c c \<Longrightarrow> 0 \<le> digit_val c"
  by (simp add: digit_val_def isdigit_c_def Let_def)

lemma decimal_fold_nonneg:
  "0 \<le> a \<Longrightarrow> list_all isdigit_c ds \<Longrightarrow> 0 \<le> foldl (\<lambda>a c. 10 * a + digit_val c) a ds"
proof (induction ds arbitrary: a)
  case Nil
  then show ?case by simp
next
  case (Cons c ds)
  from Cons.prems have "0 \<le> 10 * a + digit_val c"
    using digit_val_nonneg[of c] by simp
  with Cons show ?case by simp
qed

lemma decimal_value_nonneg: "list_all isdigit_c ds \<Longrightarrow> 0 \<le> decimal_value ds"
  by (simp add: decimal_value_def decimal_fold_nonneg)

lemma claimed_table_pos: "list_all (\<lambda>(k, m). 0 < m) claimed_table"
  by code_simp

lemma claimed_multiplier_pos:
  assumes "claimed_multiplier k = Some m"
  shows "0 < m"
proof -
  from assms have "(k, m) \<in> set claimed_table"
    by (simp add: claimed_multiplier_def map_of_SomeD)
  with claimed_table_pos show ?thesis
    by (auto simp: list_all_iff)
qed

lemma bsearch_known_suffix:
  assumes "e \<in> set SIZE_FORMAT_TABLE" "map tolower_c sfx = fmt_id e"
  shows "bsearch \<lparr>fmt_id = sfx, base = 0, exponent = 0\<rparr> SIZE_FORMAT_TABLE SIZE_FORMAT_TABLE_N = Some e"
proof -
  have "bsearch \<lparr>fmt_id = sfx, base = 0, exponent = 0\<rparr> SIZE_FORMAT_TABLE SIZE_FORMAT_TABLE_N =
        bsearch \<lparr>fmt_id = map tolower_c sfx, base = 0, exponent = 0\<rparr> SIZE_FORMAT_TABLE SIZE_FORMAT_TABLE_N"
    by (simp add: bsearch_def bsearch_loop_tolower)
  also have "\<dots> = Some e"
    using bsearch_table assms by (simp add: list_all_iff)
  finally show ?thesis .
qed

lemma bsearch_claimed_suffix:
  assumes "claimed_multiplier (map tolower_c sfx) = Some m"
  shows "\<exists>e. bsearch \<lparr>fmt_id = sfx, base = 0, exponent = 0\<rparr> SIZE_FORMAT_TABLE SIZE_FORMAT_TABLE_N = Some e
           \<and> base e ^ exponent e = m"
  using claimed_multiplier_found[OF assms] bsearch_known_suffix by metis

lemma bsearch_unknown_suffix:
  assumes "CHR 0x00 \<notin> set sfx" "claimed_multiplier (map tolower_c sfx) = None"
  shows "bsearch \<lparr>fmt_id = sfx, base = 0, exponent = 0\<rparr> SIZE_FORMAT_TABLE SIZE_FORMAT_TABLE_N = None"
proof (rule ccontr)
  assume "bsearch \<lparr>fmt_id = sfx, base = 0, exponent = 0\<rparr> SIZE_FORMAT_TABLE SIZE_FORMAT_TABLE_N \<noteq> None"
  then obtain e where e: "bsearch_loop \<lparr>fmt_id = sfx, base = 0, exponent = 0\<rparr> SIZE_FORMAT_TABLE 0
      (length SIZE_FORMAT_TABLE) = Some e"
    by (auto simp: bsearch_def SIZE_FORMAT_TABLE_N_def)
  from bsearch_loop_sound[OF e] have mem: "e \<in> set SIZE_FORMAT_TABLE"
    and cmp: "strcasecmp sfx (fmt_id e) = 0"
    by (simp_all add: rm_cmd_compare_spec_elem_def)
  from table_ids mem have ids: "CHR 0x00 \<notin> set (fmt_id e)" "map tolower_c (fmt_id e) = fmt_id e"
    by (simp_all add: list_all_iff)
  from strcasecmp_zero[OF cmp assms(1) ids(1)] ids(2)
  have "map tolower_c sfx = fmt_id e" by simp
  with claimed_multiplier_table[OF mem] assms(2) show False by simp
qed

lemma claimed_suffix_shape:
  assumes "claimed_multiplier (map tolower_c sfx) = Some m"
  shows "list_all isalpha_c sfx" "sfx \<noteq> []" "tolower_c (hd sfx) \<noteq> CHR ''x''"
proof -
  obtain e where e: "e \<in> set SIZE_FORMAT_TABLE" "fmt_id e = map tolower_c sfx"
    using claimed_multiplier_found[OF assms] by blast
  from table_ids e have ids: "list_all isalpha_c (map tolower_c sfx)" "map tolower_c sfx \<noteq> []"
      "tolower_c (hd (map tolower_c sfx)) \<noteq> CHR ''x''"
    by (auto simp: list_all_iff)
  show "list_all isalpha_c sfx" using ids(1) by (simp add: list_all_iff)
  show ne: "sfx \<noteq> []" using ids(2) by simp
  show "tolower_c (hd sfx) \<noteq> CHR ''x''" using ids(3) ne by (simp add: hd_map)
qed

lemma to_RmOff_of_int:
  "0 \<le> v \<Longrightarrow> v \<le> RMOFF_MAX \<Longrightarrow> to_RmOff (Finite (of_int v)) = Returns (v, None)"
  by (simp add: to_RmOff_def)

text \<open>
  C4, as the code has it. \<^verbatim>\<open>strtold\<close> reads the number \<open>d\<close>, a \<^verbatim>\<open>long double\<close>, from the first
  \<open>n\<close> bytes of the string: optional white space, an optional sign, and a decimal or
  hexadecimal floating-point literal, \<open>inf\<close> or \<open>nan\<close>. The suffix is the unread rest
  \<open>drop n spec\<close> with the white space around it removed, compared without regard to
  letter case with the table of the claim (\<open>claimed_multiplier\<close>).
  \<^item> When \<open>d\<close> is not negative and the suffix is in the table with the multiplier \<open>m\<close>, the
    result is the \<^verbatim>\<open>long double\<close> product of \<open>d\<close> and \<open>m\<close> converted to \<^verbatim>\<open>RmOff\<close> (\<open>to_RmOff\<close>):
    its integral part when this is at most \<open>2 ^ 64 - 1\<close>; the behaviour is undefined
    otherwise, and for an infinity and a NaN.
  \<^item> In particular, for decimal digits \<open>ds\<close> and a suffix of the table the result is
    \<open>decimal_value ds * m\<close> when this is at most \<open>2 ^ 64 - 1\<close>.
  \<^item> When \<^verbatim>\<open>strtold\<close> finds no literal, the result is 0 and the error
    "This does not look like a number".
  \<^item> When \<open>d\<close> is negative, the result is 0 and "Negativ sizes are no good idea".
  \<^item> When \<open>d\<close> is not negative and the rest is not empty and not in the table, the result is
    0 and "Given format specifier not found" (the string, a C string, has no NUL byte).
\<close>

theorem size_string_to_bytes_suffix_table:
  "(\<forall>spec d n m. strtold spec = Converted d n \<and> \<not> fp_less d (Finite 0) \<and> drop n spec \<noteq> []
        \<and> claimed_multiplier (map tolower_c (g_strstrip (drop n spec))) = Some m
      \<longrightarrow> rm_cmd_size_string_to_bytes (Some spec) = to_RmOff (ld_times d m))
   \<and> (\<forall>ds sfx m. ds \<noteq> [] \<and> list_all isdigit_c ds \<and> claimed_multiplier (map tolower_c sfx) = Some m
        \<and> decimal_value ds * m \<le> RMOFF_MAX
      \<longrightarrow> rm_cmd_size_string_to_bytes (Some (ds @ sfx)) = Returns (decimal_value ds * m, None))
   \<and> (\<forall>spec. strtold spec = No_conversion
      \<longrightarrow> rm_cmd_size_string_to_bytes (Some spec)
            = Returns (0, Some ''This does not look like a number''))
   \<and> (\<forall>spec d n. strtold spec = Converted d n \<and> fp_less d (Finite 0)
      \<longrightarrow> rm_cmd_size_string_to_bytes (Some spec)
            = Returns (0, Some ''Negativ sizes are no good idea''))
   \<and> (\<forall>spec d n. CHR 0x00 \<notin> set spec \<and> strtold spec = Converted d n \<and> \<not> fp_less d (Finite 0)
        \<and> drop n spec \<noteq> []
        \<and> claimed_multiplier (map tolower_c (g_strstrip (drop n spec))) = None
      \<longrightarrow> rm_cmd_size_string_to_bytes (Some spec)
            = Returns (0, Some ''Given format specifier not found''))"
proof (intro conjI allI impI)
  fix spec d n m
  assume a: "strtold spec = Converted d n \<and> \<not> fp_less d (Finite 0) \<and> drop n spec \<noteq> []
        \<and> claimed_multiplier (map tolower_c (g_strstrip (drop n spec))) = Some m"
  then obtain e where e:
      "bsearch \<lparr>fmt_id = g_strstrip (drop n spec), base = 0, exponent = 0\<rparr>
         SIZE_FORMAT_TABLE SIZE_FORMAT_TABLE_N = Some e"
      "base e ^ exponent e = m"
    using bsearch_claimed_suffix by blast
  show "rm_cmd_size_string_to_bytes (Some spec) = to_RmOff (ld_times d m)"
    using a by (simp add: rm_cmd_size_string_to_bytes_def e)
next
  fix ds sfx m
  assume a: "ds \<noteq> [] \<and> list_all isdigit_c ds \<and> claimed_multiplier (map tolower_c sfx) = Some m
        \<and> decimal_value ds * m \<le> RMOFF_MAX"
  then have cm: "claimed_multiplier (map tolower_c sfx) = Some m" by simp
  note shape = claimed_suffix_shape[of sfx m, OF cm]
  obtain e where e:
      "bsearch \<lparr>fmt_id = sfx, base = 0, exponent = 0\<rparr> SIZE_FORMAT_TABLE SIZE_FORMAT_TABLE_N = Some e"
      "base e ^ exponent e = m"
    using bsearch_claimed_suffix[OF cm] by blast
  have nn: "0 \<le> decimal_value ds" using a decimal_value_nonneg by blast
  have mp: "0 < m" using cm claimed_multiplier_pos by blast
  have "decimal_value ds * 1 \<le> decimal_value ds * m"
    using nn mp by (intro mult_left_mono) simp_all
  with a have small: "decimal_value ds < 2 ^ 64" by (simp add: RMOFF_MAX_def)
  have prod: "0 \<le> decimal_value ds * m" "decimal_value ds * m < 2 ^ 64"
    using nn mp a by (simp_all add: RMOFF_MAX_def)
  have st: "strtold (ds @ sfx) = Converted (Finite (of_int (decimal_value ds))) (length ds)"
    using strtold_digits a shape small nn by blast
  have times: "ld_times (Finite (of_int (decimal_value ds))) m = Finite (of_int (decimal_value ds * m))"
    using ld_round_of_int[OF prod] by simp
  have conv: "to_RmOff (ld_times (Finite (of_int (decimal_value ds))) m)
        = Returns (decimal_value ds * m, None)"
    unfolding times using prod(1) a by (intro to_RmOff_of_int) simp_all
  show "rm_cmd_size_string_to_bytes (Some (ds @ sfx)) = Returns (decimal_value ds * m, None)"
    using shape(2) nn
    by (simp add: rm_cmd_size_string_to_bytes_def st g_strstrip_alpha[OF shape(1)] e conv
          del: ld_times.simps)
next
  fix spec
  assume "strtold spec = No_conversion"
  then show "rm_cmd_size_string_to_bytes (Some spec)
            = Returns (0, Some ''This does not look like a number'')"
    by (simp add: rm_cmd_size_string_to_bytes_def rm_cmd_size_format_error_def)
next
  fix spec d n
  assume "strtold spec = Converted d n \<and> fp_less d (Finite 0)"
  then show "rm_cmd_size_string_to_bytes (Some spec)
            = Returns (0, Some ''Negativ sizes are no good idea'')"
    by (simp add: rm_cmd_size_string_to_bytes_def rm_cmd_size_format_error_def)
next
  fix spec d n
  assume a: "CHR 0x00 \<notin> set spec \<and> strtold spec = Converted d n \<and> \<not> fp_less d (Finite 0)
        \<and> drop n spec \<noteq> []
        \<and> claimed_multiplier (map tolower_c (g_strstrip (drop n spec))) = None"
  have "set (g_strstrip (drop n spec)) \<subseteq> set spec"
    using set_g_strstrip[of "drop n spec"] set_drop_subset[of n spec] by blast
  with a have nul: "CHR 0x00 \<notin> set (g_strstrip (drop n spec))" by blast
  have bs: "bsearch \<lparr>fmt_id = g_strstrip (drop n spec), base = 0, exponent = 0\<rparr>
              SIZE_FORMAT_TABLE SIZE_FORMAT_TABLE_N = None"
    using bsearch_unknown_suffix[OF nul] a by simp
  show "rm_cmd_size_string_to_bytes (Some spec)
            = Returns (0, Some ''Given format specifier not found'')"
    using a by (simp add: rm_cmd_size_string_to_bytes_def bs rm_cmd_size_format_error_def)
qed

theorem size_string_to_bytes_suffix_table_witness:
  "strtold ''1.5 Kb'' = Converted (Finite (3 / 2)) 3
   \<and> claimed_multiplier (map tolower_c (g_strstrip (drop 3 ''1.5 Kb''))) = Some 1024
   \<and> rm_cmd_size_string_to_bytes (Some ''1.5 Kb'') = Returns (1536, None)
   \<and> rm_cmd_size_string_to_bytes (Some (''12'' @ ''Kb'')) = Returns (12 * 1024, None)
   \<and> strtold ''big'' = No_conversion
   \<and> rm_cmd_size_string_to_bytes (Some ''big'') = Returns (0, Some ''This does not look like a number'')
   \<and> strtold ''-12k'' = Converted (Finite (- 12)) 3
   \<and> rm_cmd_size_string_to_bytes (Some ''-12k'') = Returns (0, Some ''Negativ sizes are no good idea'')
   \<and> strtold ''12 q'' = Converted (Finite 12) 2
   \<and> rm_cmd_size_string_to_bytes (Some ''12 q'') = Returns (0, Some ''Given format specifier not found'')"
proof -
  note T = size_string_to_bytes_suffix_table
  have s1: "strtold ''1.5 Kb'' = Converted (Finite (3 / 2)) 3" by code_simp
  have n1: "\<not> fp_less (Finite (3 / 2)) (Finite 0)" "drop 3 ''1.5 Kb'' \<noteq> []" by code_simp+
  have m1: "claimed_multiplier (map tolower_c (g_strstrip (drop 3 ''1.5 Kb''))) = Some 1024"
    by code_simp
  have v1: "to_RmOff (ld_times (Finite (3 / 2)) 1024) = Returns (1536, None)" by code_simp
  have "rm_cmd_size_string_to_bytes (Some ''1.5 Kb'') = to_RmOff (ld_times (Finite (3 / 2)) 1024)"
    by (rule T[THEN conjunct1, rule_format, OF conjI[OF s1 conjI[OF n1(1) conjI[OF n1(2) m1]]]])
  then have 1: "rm_cmd_size_string_to_bytes (Some ''1.5 Kb'') = Returns (1536, None)"
    by (simp only: v1)
  have d: "''12'' \<noteq> []" "list_all isdigit_c ''12''" by code_simp+
  have v: "decimal_value ''12'' = 12" by code_simp
  have m: "claimed_multiplier (map tolower_c ''Kb'') = Some 1024" by code_simp
  have r: "decimal_value ''12'' * 1024 \<le> RMOFF_MAX" by code_simp
  have "rm_cmd_size_string_to_bytes (Some (''12'' @ ''Kb'')) = Returns (decimal_value ''12'' * 1024, None)"
    by (rule T[THEN conjunct2, THEN conjunct1, rule_format]) (intro conjI d m r)
  then have 2: "rm_cmd_size_string_to_bytes (Some (''12'' @ ''Kb'')) = Returns (12 * 1024, None)"
    by (simp only: v)
  have s3: "strtold ''big'' = No_conversion" by code_simp
  have 3: "rm_cmd_size_string_to_bytes (Some ''big'') = Returns (0, Some ''This does not look like a number'')"
    by (rule T[THEN conjunct2, THEN conjunct2, THEN conjunct1, rule_format]) (rule s3)
  have s4: "strtold ''-12k'' = Converted (Finite (- 12)) 3" by code_simp
  have n4: "fp_less (Finite (- 12)) (Finite 0)" by code_simp
  have 4: "rm_cmd_size_string_to_bytes (Some ''-12k'') = Returns (0, Some ''Negativ sizes are no good idea'')"
    by (rule T[THEN conjunct2, THEN conjunct2, THEN conjunct2, THEN conjunct1, rule_format,
          OF conjI[OF s4 n4]])
  have s5: "strtold ''12 q'' = Converted (Finite 12) 2" by code_simp
  have n5: "CHR 0x00 \<notin> set ''12 q''" "\<not> fp_less (Finite 12) (Finite 0)" "drop 2 ''12 q'' \<noteq> []"
      "claimed_multiplier (map tolower_c (g_strstrip (drop 2 ''12 q''))) = None"
    by code_simp+
  have 5: "rm_cmd_size_string_to_bytes (Some ''12 q'') = Returns (0, Some ''Given format specifier not found'')"
    by (rule T[THEN conjunct2, THEN conjunct2, THEN conjunct2, THEN conjunct2, rule_format,
          OF conjI[OF n5(1) conjI[OF s5 conjI[OF n5(2) conjI[OF n5(3) n5(4)]]]]])
  show ?thesis by (intro conjI s1 m1 1 2 s3 3 s4 4 s5 5)
qed

text \<open>
  C4 as stated fails in three ways. \<open>16eb\<close> is \<open>16 * 1024 ^ 6 = 2 ^ 64\<close>, which no \<^verbatim>\<open>RmOff\<close>
  holds: the conversion of this value is undefined ("No overflow check" in the source).
  \<open>0.008k\<close> is 7 and not \<open>0.008 * 1000 = 8\<close>: the \<^verbatim>\<open>long double\<close> nearest to 0.008 is
  below it, so is the product, and the conversion discards the fraction. And \<open>infk\<close>, which
  does not start with a digit, is no error: \<^verbatim>\<open>strtold\<close> reads \<open>inf\<close> as a number, and the
  conversion of an infinity is undefined.
\<close>

theorem size_string_to_bytes_overflow_counterexample:
  "list_all isdigit_c ''16'' \<and> decimal_value ''16'' = 16
   \<and> claimed_multiplier ''eb'' = Some (1024 ^ 6)
   \<and> rm_cmd_size_string_to_bytes (Some ''16eb'') = Undefined
   \<and> rm_cmd_size_string_to_bytes (Some ''16eb'') \<noteq> Returns (16 * 1024 ^ 6, None)
   \<and> claimed_multiplier ''k'' = Some 1000
   \<and> rm_cmd_size_string_to_bytes (Some ''0.008k'') = Returns (7, None)
   \<and> rm_cmd_size_string_to_bytes (Some ''infk'') = Undefined"
  by code_simp

text \<open>
  Some sizes as the code computes them: a fraction, a hexadecimal literal, an exponent,
  white space around the suffix, an integer above \<open>2 ^ 53\<close> without suffix (\<^verbatim>\<open>round\<close> takes
  a \<^verbatim>\<open>double\<close>), a letter that is an exponent without digits and so the suffix \<open>e\<close>.
\<close>

lemma size_string_to_bytes_examples:
  "rm_cmd_size_string_to_bytes (Some ''1.5k'') = Returns (1500, None)"
  "rm_cmd_size_string_to_bytes (Some ''0x10'') = Returns (16, None)"
  "rm_cmd_size_string_to_bytes (Some ''1e3'') = Returns (1000, None)"
  "rm_cmd_size_string_to_bytes (Some '' 12 Kb '') = Returns (12288, None)"
  "rm_cmd_size_string_to_bytes (Some ''9007199254740993'') = Returns (9007199254740992, None)"
  "rm_cmd_size_string_to_bytes (Some ''2e'') = Returns (2000000000000000000, None)"
  "rm_cmd_size_string_to_bytes (Some ''2.5'') = Returns (3, None)"
  "rm_cmd_size_string_to_bytes (Some ''-0'') = Returns (0, None)"
  "rm_cmd_size_string_to_bytes (Some ''nan'') = Undefined"
  "size_spec_after_call ''12 q '' = ''12q''"
  by code_simp+

subsection \<open>Size ranges\<close>

lemma split_upto_no_delimiter: "d \<notin> set s \<Longrightarrow> split_upto n d s = [s]"
  by (induction s) auto

lemma to_RmOff_range: "to_RmOff x = Returns (v, e) \<Longrightarrow> 0 \<le> v \<and> v \<le> RMOFF_MAX \<and> e = None"
  by (auto simp: to_RmOff_def Let_def split: fp.splits if_splits)

lemma size_string_to_bytes_range:
  "rm_cmd_size_string_to_bytes spec = Returns (v, e) \<Longrightarrow> 0 \<le> v \<and> v \<le> RMOFF_MAX"
  by (auto simp: rm_cmd_size_string_to_bytes_def rm_cmd_size_format_error_def RMOFF_MAX_def
           dest: to_RmOff_range split: option.splits strtold_result.splits if_splits)

lemma size_string_to_bytes_empty:
  "rm_cmd_size_string_to_bytes (Some []) = Returns (0, Some ''This does not look like a number'')"
  by code_simp

text \<open>
  C3, as the code has it. For a range string without \<open>-\<close> that
  \<^verbatim>\<open>rm_cmd_size_string_to_bytes\<close> reads as the size \<open>v\<close> with no error,
  \<^verbatim>\<open>rm_cmd_size_range_string_to_bytes\<close> succeeds with \<^verbatim>\<open>*min == v\<close>, and \<^verbatim>\<open>*max\<close> keeps its
  initial value \<^verbatim>\<open>G_MAXULONG\<close>: the single value is a lower bound, not an exact size.
\<close>

theorem size_range_single_value:
  assumes "CHR ''-'' \<notin> set range_spec"
    and "rm_cmd_size_string_to_bytes (Some range_spec) = Returns (v, None)"
  shows "rm_cmd_size_range_string_to_bytes range_spec = Returns (True, v, G_MAXULONG, None)"
proof -
  have ne: "range_spec \<noteq> []"
    using assms(2) size_string_to_bytes_empty by auto
  have split: "g_strsplit range_spec (CHR ''-'') 2 = [range_spec]"
    using ne assms(1) by (simp add: g_strsplit_def split_upto_no_delimiter)
  have "v \<le> G_MAXULONG"
    using size_string_to_bytes_range[OF assms(2)] by (simp add: G_MAXULONG_def RMOFF_MAX_def)
  then show ?thesis
    by (simp add: rm_cmd_size_range_string_to_bytes_def split bind_outcome_def assms(2))
qed

theorem size_range_single_value_witness:
  "CHR ''-'' \<notin> set ''4k'' \<and> rm_cmd_size_string_to_bytes (Some ''4k'') = Returns (4000, None)
   \<and> rm_cmd_size_range_string_to_bytes ''4k'' = Returns (True, 4000, G_MAXULONG, None)"
proof -
  have h1: "CHR ''-'' \<notin> set ''4k''" by simp
  have h2: "rm_cmd_size_string_to_bytes (Some ''4k'') = Returns (4000, None)" by code_simp
  show ?thesis using h1 h2 size_range_single_value[OF h1 h2] by simp
qed

text \<open>
  C3 as stated fails: the string \<open>100\<close> has no \<open>-\<close> and is the size 100, and the range
  that results is from 100 to \<open>2 ^ 64 - 1\<close>, not from 100 to 100.
\<close>

theorem size_range_single_value_counterexample:
  "CHR ''-'' \<notin> set ''100'' \<and> rm_cmd_size_string_to_bytes (Some ''100'') = Returns (100, None)
   \<and> rm_cmd_size_range_string_to_bytes ''100'' = Returns (True, 100, 18446744073709551615, None)
   \<and> rm_cmd_size_range_string_to_bytes ''100'' \<noteq> Returns (True, 100, 100, None)"
  by code_simp

subsection \<open>The orchestrator\<close>



subsection \<open>What the path and output functions leave alone\<close>

text \<open>
  \<open>with_cfg\<close> sets the four settings that \<^verbatim>\<open>rm_cmd_parse_args\<close> itself writes. The path
  and output functions neither read nor write them: they commute with \<open>with_cfg\<close>.
\<close>

definition with_cfg :: "int \<Rightarrow> int \<Rightarrow> bool \<Rightarrow> string \<Rightarrow> RmSession \<Rightarrow> RmSession" where
  "with_cfg a b c j session =
     session\<lparr>settings := (settings session)\<lparr>threads := a, depth := b, color := c, joined_argv := j\<rparr>\<rparr>"

lemma with_cfg_fields [simp]:
  "threads (settings (with_cfg a b c j s)) = a"
  "depth (settings (with_cfg a b c j s)) = b"
  "color (settings (with_cfg a b c j s)) = c"
  "joined_argv (settings (with_cfg a b c j s)) = j"
  "paths (settings (with_cfg a b c j s)) = paths (settings s)"
  "is_prefd (settings (with_cfg a b c j s)) = is_prefd (settings s)"
  "iwd (settings (with_cfg a b c j s)) = iwd (settings s)"
  "stdin_buf (with_cfg a b c j s) = stdin_buf s"
  "formats (with_cfg a b c j s) = formats s"
  "output_cnt0 (with_cfg a b c j s) = output_cnt0 s"
  "output_cnt1 (with_cfg a b c j s) = output_cnt1 s"
  "log_lines (with_cfg a b c j s) = log_lines s"
  by (simp_all add: with_cfg_def)

lemma with_cfg_self:
  "with_cfg (threads (settings s)) (depth (settings s)) (color (settings s)) (joined_argv (settings s)) s = s"
  by (simp add: with_cfg_def)











subsection \<open>\<^verbatim>\<open>rm_cmd_parse_args\<close> in two steps\<close>



lemma with_cfg_more_fields [simp]:
  "keep_all_tagged (settings (with_cfg a b c j s)) = keep_all_tagged (settings s)"
  "keep_all_untagged (settings (with_cfg a b c j s)) = keep_all_untagged (settings s)"
  "skip_start_factor (settings (with_cfg a b c j s)) = skip_start_factor (settings s)"
  "skip_end_factor (settings (with_cfg a b c j s)) = skip_end_factor (settings s)"
  by (simp_all add: with_cfg_def)







subsection \<open>Threads and depth\<close>




end
